theory Spec2Isabelle
  imports Main "HOL-Library.Sublist"
begin

section \<open>Text segmenter: \<open>split_long_text\<close> (app.py, create_bible_verses_presentation.py)\<close>

text \<open>
  A Python \<open>str\<close> is modelled as a \<open>string\<close>: a list of characters whose length is the
  number of characters, as \<open>len\<close> counts them. The characters of the model are the code
  points below 256. \<open>max_length\<close> is a Python integer, so an \<open>int\<close>.
\<close>

text \<open>\<open>str.isspace\<close> on one character: the white space that \<open>str.strip()\<close> removes.\<close>

definition isspace :: "char \<Rightarrow> bool" where
  "isspace c = (let n = (of_char c :: nat)
                in (9 \<le> n \<and> n \<le> 13) \<or> (28 \<le> n \<and> n \<le> 32) \<or> n = 133 \<or> n = 160)"

text \<open>\<open>s.strip()\<close>: leading and trailing white space removed.\<close>

definition strip :: "string \<Rightarrow> string" where
  "strip s = rev (dropWhile isspace (rev (dropWhile isspace s)))"

text \<open>
  \<open>s.replace(old, new)\<close>: every occurrence of \<open>old\<close>, found from left to right without
  overlap, becomes \<open>new\<close>. With an empty \<open>old\<close> Python puts \<open>new\<close> before every character
  and at the end.
\<close>

function replace :: "string \<Rightarrow> string \<Rightarrow> string \<Rightarrow> string" where
  "replace old new s =
     (if old = [] then new @ concat (map (\<lambda>c. c # new) s)
      else if s = [] then []
      else if prefix old s then new @ replace old new (drop (length old) s)
      else hd s # replace old new (tl s))"
  by pat_completeness auto
termination
  by (relation "measure (\<lambda>(old, new, s). length s)") auto

declare replace.simps [simp del]

text \<open>\<open>s.split(sep)\<close> for a separator of one character; \<open>''.split('|')\<close> is \<open>['']\<close>.\<close>

fun split :: "char \<Rightarrow> string \<Rightarrow> string list" where
  "split sep [] = [[]]"
| "split sep (c # cs) =
     (if c = sep then [] # split sep cs
      else (case split sep cs of
              [] \<Rightarrow> [[c]]
            | w # ws \<Rightarrow> (c # w) # ws))"

text \<open>
  The sentence units of line 23:
  \<open>text.replace('. ', '.|').replace('! ', '!|').replace('? ', '?|').split('|')\<close>.
\<close>

definition sentences :: "string \<Rightarrow> string list" where
  "sentences text =
     split (CHR ''|'')
       (replace ''? '' ''?|'' (replace ''! '' ''!|'' (replace ''. '' ''.|'' text)))"

text \<open>
  The loop of lines 27 to 33 over the remaining sentences; the state is
  \<open>(parts, current_part)\<close>.
\<close>

fun accumulate :: "int \<Rightarrow> string list \<Rightarrow> string list \<times> string \<Rightarrow> string list \<times> string" where
  "accumulate max_length [] st = st"
| "accumulate max_length (sentence # rest) (parts, current_part) =
     (if int (length (current_part @ sentence)) \<le> max_length
      then accumulate max_length rest (parts, current_part @ sentence)
      else accumulate max_length rest
             (if current_part \<noteq> [] then parts @ [strip current_part] else parts, sentence))"

text \<open>
  \<open>parts\<close> as it stands at line 38, after the loop and the final
  \<open>if current_part: parts.append(current_part.strip())\<close>.
\<close>

definition split_parts :: "string \<Rightarrow> int \<Rightarrow> string list" where
  "split_parts text max_length =
     (case accumulate max_length (sentences text) ([], []) of
        (parts, current_part) \<Rightarrow>
          if current_part \<noteq> [] then parts @ [strip current_part] else parts)"

definition split_long_text :: "string \<Rightarrow> int \<Rightarrow> string list" where
  "split_long_text text max_length =
     (if int (length text) \<le> max_length then [text]
      else (let parts = split_parts text max_length
            in if parts \<noteq> [] then parts else [text]))"

section \<open>Highlight merger: \<open>_apply_highlights\<close> (pptx_bible_verses/core.py)\<close>

text \<open>
  The merger works on any type of characters \<open>'a\<close>. The paragraph of the presentation
  library is modelled as the list of its runs; a run is recorded with the interval of the
  text it renders, its text and whether it has the highlight format (bold, orange). The
  calls into the library (\<open>paragraph.text = ...\<close>, \<open>paragraph.runs[0]\<close>, \<open>add_run()\<close>) are
  modelled by their effect on that list.
\<close>

text \<open>A match as line 82 stores it: \<open>(match.start(), match.end(), match.group())\<close>.\<close>

type_synonym 'a match = "nat \<times> nat \<times> 'a list"

text \<open>\<open>s[a:b]\<close> for indices \<open>0 \<le> a\<close> and \<open>0 \<le> b\<close>; it is empty when \<open>b \<le> a\<close>.\<close>

definition slice :: "'a list \<Rightarrow> nat \<Rightarrow> nat \<Rightarrow> 'a list" where
  "slice s a b = take (b - a) (drop a s)"

text \<open>
  The pattern of line 79 is \<open>re.escape(highlight)\<close>, so it matches the term literally,
  character by character. \<open>re.IGNORECASE\<close> compares a character of the pattern with a
  character of the text up to case; that comparison is the parameter \<open>ceq\<close>.
  \<open>match_at\<close> says that the pattern matches the text at position \<open>pos\<close>.
\<close>

definition match_at :: "('a \<Rightarrow> 'a \<Rightarrow> bool) \<Rightarrow> 'a list \<Rightarrow> 'a list \<Rightarrow> nat \<Rightarrow> bool" where
  "match_at ceq pattern text pos =
     (pos + length pattern \<le> length text \<and>
      list_all2 ceq pattern (slice text pos (pos + length pattern)))"

text \<open>
  \<open>re.finditer(pattern, text, re.IGNORECASE)\<close>, scanning from \<open>pos\<close>: the matches from left
  to right, without overlap. After a match the scan goes on at its end; the empty pattern
  matches with width zero at every position from 0 to \<open>len(text)\<close>.
\<close>

function finditer :: "('a \<Rightarrow> 'a \<Rightarrow> bool) \<Rightarrow> 'a list \<Rightarrow> 'a list \<Rightarrow> nat \<Rightarrow> 'a match list" where
  "finditer ceq pattern text pos =
     (if length text < pos then []
      else if match_at ceq pattern text pos
      then (pos, pos + length pattern, slice text pos (pos + length pattern)) #
           finditer ceq pattern text (if pattern = [] then pos + 1 else pos + length pattern)
      else finditer ceq pattern text (pos + 1))"
  by pat_completeness auto
termination
  by (relation "measure (\<lambda>(ceq, pattern, text, pos). length text + 1 - pos)")
     (auto simp add: match_at_def neq_Nil_conv)

declare finditer.simps [simp del]

text \<open>Lines 76 to 82: the matches of every highlight term, in the order of the terms.\<close>

fun all_matches :: "('a \<Rightarrow> 'a \<Rightarrow> bool) \<Rightarrow> 'a list \<Rightarrow> 'a list list \<Rightarrow> 'a match list" where
  "all_matches ceq text [] = []"
| "all_matches ceq text (highlight # highlights) =
     finditer ceq highlight text 0 @ all_matches ceq text highlights"

text \<open>
  Lines 88 to 93: the sweep over the sorted matches, keeping a match when its start is at
  least \<open>last_end\<close>. The source starts it with \<open>last_end = -1\<close>.
\<close>

fun remove_overlaps :: "int \<Rightarrow> 'a match list \<Rightarrow> 'a match list" where
  "remove_overlaps last_end [] = []"
| "remove_overlaps last_end ((start, end', matched_text) # matches) =
     (if int start \<ge> last_end
      then (start, end', matched_text) # remove_overlaps (int end') matches
      else remove_overlaps last_end matches)"

text \<open>A run of the paragraph, with the interval \<open>[span_start, span_end)\<close> it renders.\<close>

record 'a span =
  span_start :: nat
  span_end :: nat
  span_text :: "'a list"
  is_highlighted :: bool

text \<open>
  Lines 107 to 134: the loop over the filtered matches. The state is
  \<open>(paragraph, current_pos, first_run)\<close>. While \<open>first_run\<close> holds the source writes
  \<open>paragraph.text = ...\<close>, which replaces the content of the paragraph by one run;
  afterwards it appends a run with \<open>add_run()\<close>.
\<close>

fun add_runs :: "'a list \<Rightarrow> 'a match list \<Rightarrow> 'a span list \<times> nat \<times> bool \<Rightarrow> 'a span list \<times> nat \<times> bool" where
  "add_runs text [] st = st"
| "add_runs text ((start, end', matched_text) # matches) (paragraph, current_pos, first_run) =
     (let (paragraph1, first_run1) =
            (if start > current_pos
             then (if first_run
                   then ([\<lparr>span_start = current_pos, span_end = start,
                            span_text = slice text current_pos start, is_highlighted = False\<rparr>], False)
                   else (paragraph @
                         [\<lparr>span_start = current_pos, span_end = start,
                           span_text = slice text current_pos start, is_highlighted = False\<rparr>], first_run))
             else (paragraph, first_run));
          (paragraph2, first_run2) =
            (if first_run1
             then ([\<lparr>span_start = start, span_end = end',
                      span_text = matched_text, is_highlighted = True\<rparr>], False)
             else (paragraph1 @
                   [\<lparr>span_start = start, span_end = end',
                     span_text = matched_text, is_highlighted = True\<rparr>], first_run1))
      in add_runs text matches (paragraph2, end', first_run2))"

text \<open>Lines 85 to 93: \<open>matches.sort(key=lambda x: x[0])\<close>, a stable sort, then the sweep.\<close>

definition filtered_matches :: "('a \<Rightarrow> 'a \<Rightarrow> bool) \<Rightarrow> 'a list \<Rightarrow> 'a list list \<Rightarrow> 'a match list" where
  "filtered_matches ceq text highlights =
     remove_overlaps (- 1) (sort_key fst (all_matches ceq text highlights))"

text \<open>
  \<open>_apply_highlights(paragraph, text, highlights)\<close>; the result is the list of runs of the
  paragraph afterwards. Without a match (line 96) the whole text is one plain run.
\<close>

definition apply_highlights ::
  "('a \<Rightarrow> 'a \<Rightarrow> bool) \<Rightarrow> 'a span list \<Rightarrow> 'a list \<Rightarrow> 'a list list \<Rightarrow> 'a span list" where
  "apply_highlights ceq paragraph text highlights =
     (let filtered = filtered_matches ceq text highlights
      in if filtered = []
         then [\<lparr>span_start = 0, span_end = length text, span_text = text, is_highlighted = False\<rparr>]
         else (case add_runs text filtered (paragraph, 0, True) of
                 (paragraph', current_pos, first_run) \<Rightarrow>
                   if current_pos < length text
                   then paragraph' @
                        [\<lparr>span_start = current_pos, span_end = length text,
                          span_text = drop current_pos text, is_highlighted = False\<rparr>]
                   else paragraph'))"

text \<open>
  The comparison of \<open>re.IGNORECASE\<close> on characters whose only case variants are the
  letters A to Z and a to z: equal after lower-casing.
\<close>

definition lower :: "char \<Rightarrow> char" where
  "lower c = (let n = (of_char c :: nat) in if 65 \<le> n \<and> n \<le> 90 then char_of (n + 32) else c)"

definition ieq :: "char \<Rightarrow> char \<Rightarrow> bool" where
  "ieq p c = (lower p = lower c)"

section \<open>Document builder: \<open>create_presentation\<close> (pptx_bible_verses/core.py)\<close>

text \<open>
  The input is the dictionary loaded from JSON. A key that may be absent is an \<open>option\<close>
  field, \<open>None\<close> when the dictionary has no such key; \<open>other_keys\<close> counts the keys of the
  top-level dictionary that the builder never reads. The keys \<open>text\<close> and \<open>section\<close> are
  the fields \<open>verse_text\<close> and \<open>section_name\<close>. Reading an absent key with \<open>d[key]\<close>
  raises \<open>KeyError\<close>.
\<close>

datatype error = KeyError string

record verse =
  reference :: "string option"
  verse_text :: "string option"
  verse_highlights :: "string list option"

record section_data =
  section_name :: "string option"
  section_verses :: "verse list option"

record data =
  presentation_title :: "string option"
  presentation_subtitle :: "string option"
  sections :: "section_data list option"
  other_keys :: nat

text \<open>
  The presentation is the list of its slides, in the order they were added. A verse slide
  holds the runs of its paragraph, the reference, and the part number that the source
  appends to the reference as \<open>(Part n)\<close>.
\<close>

datatype slide =
    TitleSlide string "string option"
  | SectionSlide string
  | VerseSlide "char span list" string "nat option"

text \<open>The files on disk: the presentation saved under each name.\<close>

type_synonym files = "string \<Rightarrow> slide list option"

text \<open>
  What the builder takes from outside \<open>core.py\<close>. \<open>split_long_text\<close> and
  \<open>sanitize_filename\<close> are imported from \<open>pptx_bible_verses/utils.py\<close> and are
  parameters here; so are the comparison of
  \<open>re.IGNORECASE\<close>, the number of placeholders of the title layout, and \<open>prs.save\<close>,
  which returns the files afterwards and whether it succeeded (\<open>False\<close>: it raised).
  Messages printed to the terminal are not modelled.
\<close>

record env =
  ignorecase :: "char \<Rightarrow> char \<Rightarrow> bool"
  utils_split_long_text :: "string \<Rightarrow> string list"
  sanitize_filename :: "string \<Rightarrow> string"
  title_placeholders :: nat
  save :: "files \<Rightarrow> string \<Rightarrow> slide list \<Rightarrow> files \<times> bool"

text \<open>Python's truth value of a string or list that may be \<open>None\<close>.\<close>

definition truthy :: "'a list option \<Rightarrow> bool" where
  "truthy v = (case v of None \<Rightarrow> False | Some s \<Rightarrow> s \<noteq> [])"

text \<open>\<open>d.get(key, default)\<close>.\<close>

definition get :: "'a option \<Rightarrow> 'a \<Rightarrow> 'a" where
  "get v dflt = (case v of None \<Rightarrow> dflt | Some x \<Rightarrow> x)"

text \<open>\<open>not data\<close>: the argument is \<open>None\<close> or the empty dictionary.\<close>

definition falsy_data :: "data option \<Rightarrow> bool" where
  "falsy_data d =
     (case d of
        None \<Rightarrow> True
      | Some dict \<Rightarrow>
          presentation_title dict = None \<and> presentation_subtitle dict = None \<and>
          sections dict = None \<and> other_keys dict = 0)"

text \<open>Lines 12 to 57: a slide is added at the end of the presentation.\<close>

definition add_title_slide :: "env \<Rightarrow> slide list \<Rightarrow> string \<Rightarrow> string \<Rightarrow> slide list" where
  "add_title_slide e prs title subtitle =
     prs @ [TitleSlide title
              (if subtitle \<noteq> [] \<and> title_placeholders e > 1 then Some subtitle else None)]"

definition add_section_slide :: "slide list \<Rightarrow> string \<Rightarrow> slide list" where
  "add_section_slide prs name = prs @ [SectionSlide name]"

text \<open>
  Lines 144 to 205. The paragraph of the new text box has no runs; with highlight terms
  the merger fills it, otherwise the verse text is its only, plain run.
\<close>

definition add_verse_slide ::
  "env \<Rightarrow> slide list \<Rightarrow> string \<Rightarrow> string \<Rightarrow> nat option \<Rightarrow> string list option \<Rightarrow> slide list" where
  "add_verse_slide e prs text ref part_num highlights =
     prs @ [VerseSlide
              (if truthy highlights \<and> length (get highlights []) > 0
               then apply_highlights (ignorecase e) [] text (get highlights [])
               else [\<lparr>span_start = 0, span_end = length text, span_text = text,
                      is_highlighted = False\<rparr>])
              ref part_num]"

text \<open>Lines 268 to 270: one slide for each part, numbered from 1 when there are several.\<close>

fun add_parts ::
  "env \<Rightarrow> slide list \<Rightarrow> verse \<Rightarrow> nat \<Rightarrow> string list option \<Rightarrow> nat \<Rightarrow> string list \<Rightarrow>
   error + slide list" where
  "add_parts e prs v n highlights i [] = Inr prs"
| "add_parts e prs v n highlights i (part # rest) =
     (case reference v of
        None \<Rightarrow> Inl (KeyError ''reference'')
      | Some ref \<Rightarrow>
          add_parts e
            (add_verse_slide e prs part ref (if n > 1 then Some (i + 1) else None) highlights)
            v n highlights (i + 1) rest)"

text \<open>Lines 261 to 270: the loop over the verses of a section.\<close>

fun add_verses :: "env \<Rightarrow> slide list \<Rightarrow> verse list \<Rightarrow> error + slide list" where
  "add_verses e prs [] = Inr prs"
| "add_verses e prs (v # rest) =
     (case verse_text v of
        None \<Rightarrow> Inl (KeyError ''text'')
      | Some text \<Rightarrow>
          (let verse_parts = utils_split_long_text e text;
               highlights = verse_highlights v
           in case add_parts e prs v (length verse_parts) highlights 0 verse_parts of
                Inl err \<Rightarrow> Inl err
              | Inr prs' \<Rightarrow> add_verses e prs' rest))"

text \<open>Lines 255 to 270: the body of the loop over the sections, for one section.\<close>

definition add_section ::
  "env \<Rightarrow> string option \<Rightarrow> slide list \<Rightarrow> section_data \<Rightarrow> error + slide list" where
  "add_section e custom_title prs sd =
     (if truthy (section_verses sd) \<and> length (get (section_verses sd) []) > 0
      then (if \<not> truthy custom_title
            then (case section_name sd of
                    None \<Rightarrow> Inl (KeyError ''section'')
                  | Some name \<Rightarrow>
                      add_verses e (add_section_slide prs name) (get (section_verses sd) []))
            else add_verses e prs (get (section_verses sd) []))
      else Inr prs)"

text \<open>Line 253: the loop over the sections; an exception ends it.\<close>

fun add_sections ::
  "env \<Rightarrow> string option \<Rightarrow> slide list \<Rightarrow> section_data list \<Rightarrow> error + slide list" where
  "add_sections e custom_title prs [] = Inr prs"
| "add_sections e custom_title prs (sd # rest) =
     (case add_section e custom_title prs sd of
        Inl err \<Rightarrow> Inl err
      | Inr prs' \<Rightarrow> add_sections e custom_title prs' rest)"

text \<open>
  Lines 232 to 291. The result is the returned value (\<open>None\<close> or the name of the file)
  with the files afterwards, or the exception that leaves the function; such an exception
  is raised before \<open>prs.save\<close>, so no file has been written then.
\<close>

definition create_presentation ::
  "env \<Rightarrow> files \<Rightarrow> data option \<Rightarrow> string option \<Rightarrow> string option \<Rightarrow>
   error + (string option \<times> files)" where
  "create_presentation e fs d output_file custom_title =
     (if falsy_data d then Inr (None, fs)
      else (case d of
        None \<Rightarrow> Inr (None, fs)
      | Some dict \<Rightarrow>
         (let verses_data = get (sections dict) [];
              title = (if truthy custom_title then get custom_title []
                       else get (presentation_title dict) ''Bible Verses Collection'');
              subtitle = (if truthy custom_title then []
                          else get (presentation_subtitle dict) ''Selected Scriptures'')
          in case add_sections e custom_title (add_title_slide e [] title subtitle) verses_data of
               Inl err \<Rightarrow> Inl err
             | Inr prs \<Rightarrow>
                (let named =
                       (if \<not> truthy output_file
                        then (if truthy custom_title
                              then sanitize_filename e (get custom_title [])
                              else sanitize_filename e
                                     (get (presentation_title dict) ''presentation'')) @ ''.pptx''
                        else get output_file []);
                     out = (if \<not> suffix ''.pptx'' named then named @ ''.pptx'' else named)
                 in case save e fs out prs of
                      (fs', True) \<Rightarrow> Inr (Some out, fs')
                    | (fs', False) \<Rightarrow> Inr (None, fs')))))"

text \<open>An environment to run the builder on examples.\<close>

definition example_env :: env where
  "example_env =
     \<lparr>ignorecase = ieq,
      utils_split_long_text = (\<lambda>text. split_long_text text 200),
      sanitize_filename = (\<lambda>name. name),
      title_placeholders = 2,
      save = (\<lambda>fs name prs. (fs(name \<mapsto> prs), True))\<rparr>"

section \<open>Notions used in the statements\<close>










text \<open>The slides that hold a verse.\<close>

fun is_verse_slide :: "slide \<Rightarrow> bool" where
  "is_verse_slide (VerseSlide runs ref part_num) = True"
| "is_verse_slide s = False"

section \<open>Segmenter: short texts and the fallback\<close>

text \<open>
  C7. For every text and every \<open>max_length\<close> with \<open>len(text) \<le> max_length\<close>, the segmenter
  returns exactly the one-element list \<open>[text]\<close>, the text unchanged.
\<close>

theorem split_long_text_short:
  "int (length text) \<le> max_length \<Longrightarrow> split_long_text text max_length = [text]"
  by (simp add: split_long_text_def)

theorem split_long_text_short_witness:
  "int (length ''Jesus wept.'') \<le> 200 \<and> split_long_text ''Jesus wept.'' 200 = [''Jesus wept.'']"
  using split_long_text_short [of "''Jesus wept.''" 200] by simp

lemma sentences_pipes: "sentences ''||||'' = [[], [], [], [], []]"
  by (simp add: sentences_def replace.simps)

lemma split_parts_pipes: "split_parts ''||||'' 3 = []"
  by (simp add: split_parts_def sentences_pipes)

text \<open>
  C8. The segmenter is a total function (every definition above is a terminating
  recursion, and no operation of the source can raise) and its result is never the empty
  list, for every text and every \<open>max_length\<close>. When the text is longer than \<open>max_length\<close>
  and the pass over the units leaves \<open>parts\<close> empty, the result is the fallback \<open>[text]\<close>.
\<close>

theorem split_long_text_nonempty:
  "split_long_text text max_length \<noteq> [] \<and>
   (\<not> int (length text) \<le> max_length \<and> split_parts text max_length = []
      \<longrightarrow> split_long_text text max_length = [text])"
  by (simp add: split_long_text_def Let_def)

theorem split_long_text_nonempty_witness:
  "\<not> int (length ''||||'') \<le> 3 \<and> split_parts ''||||'' 3 = [] \<and>
   split_long_text ''||||'' 3 \<noteq> [] \<and> split_long_text ''||||'' 3 = [''||||'']"
  using split_long_text_nonempty [of "''||||''" 3] split_parts_pipes by simp

section \<open>Segmenter: the length of a chunk\<close>









section \<open>Segmenter: the characters of the chunks\<close>

lemma filter_dropWhile: "(\<And>x. Q x \<Longrightarrow> \<not> P x) \<Longrightarrow> filter P (dropWhile Q s) = filter P s"
  by (induction s) auto

lemma filter_strip: "filter (\<lambda>c. \<not> isspace c) (strip s) = filter (\<lambda>c. \<not> isspace c) s"
proof -
  have "filter (\<lambda>c. \<not> isspace c) (rev (dropWhile isspace (rev (dropWhile isspace s)))) =
        rev (filter (\<lambda>c. \<not> isspace c) (dropWhile isspace (rev (dropWhile isspace s))))"
    by (simp add: rev_filter)
  also have "\<dots> = rev (filter (\<lambda>c. \<not> isspace c) (rev (dropWhile isspace s)))"
    by (simp add: filter_dropWhile)
  also have "\<dots> = filter (\<lambda>c. \<not> isspace c) (dropWhile isspace s)"
    by (simp add: rev_filter)
  also have "\<dots> = filter (\<lambda>c. \<not> isspace c) s"
    by (simp add: filter_dropWhile)
  finally show ?thesis by (simp add: strip_def)
qed

lemma accumulate_content:
  "accumulate m ss (parts, cur) = (parts', cur') \<Longrightarrow>
   filter (\<lambda>c. \<not> isspace c) (concat parts' @ cur') =
   filter (\<lambda>c. \<not> isspace c) (concat parts @ cur @ concat ss)"
proof (induction ss arbitrary: parts cur)
  case Nil
  then show ?case by simp
next
  case (Cons s ss)
  show ?case
  proof (cases "int (length (cur @ s)) \<le> m")
    case True
    with Cons.prems have "accumulate m ss (parts, cur @ s) = (parts', cur')" by simp
    from Cons.IH [OF this] show ?thesis by simp
  next
    case False
    with Cons.prems have
      "accumulate m ss (if cur \<noteq> [] then parts @ [strip cur] else parts, s) = (parts', cur')"
      by simp
    from Cons.IH [OF this] show ?thesis by (simp add: filter_strip)
  qed
qed

lemma split_parts_content:
  "filter (\<lambda>c. \<not> isspace c) (concat (split_parts str m)) =
   filter (\<lambda>c. \<not> isspace c) (concat (sentences str))"
proof -
  obtain parts cur where acc: "accumulate m (sentences str) ([], []) = (parts, cur)"
    by (cases "accumulate m (sentences str) ([], [])")
  from accumulate_content [OF acc] acc show ?thesis
    by (cases "cur = []") (simp_all add: split_parts_def filter_strip)
qed

lemma concat_split: "concat (split sep s) = filter (\<lambda>c. c \<noteq> sep) s"
  by (induction s) (auto split: list.splits)

lemma filter_replace:
  "isspace (CHR '' '') \<Longrightarrow>
   filter (\<lambda>c. c \<noteq> CHR ''|'' \<and> \<not> isspace c) (replace [a, CHR '' ''] [a, CHR ''|''] s) =
   filter (\<lambda>c. c \<noteq> CHR ''|'' \<and> \<not> isspace c) s"
proof (induction "[a, CHR '' '']" "[a, CHR ''|'']" s rule: replace.induct)
  case (1 s)
  show ?case
  proof (cases "s = []")
    case True
    then show ?thesis by (simp add: replace.simps)
  next
    case ne: False
    show ?thesis
    proof (cases "prefix [a, CHR '' ''] s")
      case True
      then obtain r where s: "s = a # CHR '' '' # r" by (auto simp add: prefix_def)
      from "1.hyps"(1) [OF _ ne True] "1.prems" s show ?thesis
        by (subst replace.simps) auto
    next
      case False
      from ne obtain c r where s: "s = c # r" by (cases s) auto
      from "1.hyps"(2) [OF _ ne False] "1.prems" s False show ?thesis
        by (subst replace.simps) auto
    qed
  qed
qed

lemma isspace_space: "isspace (CHR '' '')"
  by (simp add: isspace_def)

lemma sentences_content:
  "filter (\<lambda>c. \<not> isspace c) (concat (sentences str)) =
   filter (\<lambda>c. c \<noteq> CHR ''|'' \<and> \<not> isspace c) str"
  by (simp add: sentences_def concat_split filter_replace [OF isspace_space])

text \<open>
  What the chunks keep: on the short path and in the fallback the text itself, otherwise
  every character of the text that is neither white space nor \<open>|\<close>, in order. So a text
  without \<open>|\<close> keeps all its characters other than white space.
\<close>

lemma split_long_text_content:
  "filter (\<lambda>c. \<not> isspace c) (concat (split_long_text str m)) =
     (if int (length str) \<le> m \<or> split_parts str m = []
      then filter (\<lambda>c. \<not> isspace c) str
      else filter (\<lambda>c. c \<noteq> CHR ''|'' \<and> \<not> isspace c) str)"
  using split_parts_content [of str m] sentences_content [of str]
  by (simp add: split_long_text_def Let_def)

lemma split_long_text_keeps_text:
  "CHR ''|'' \<notin> set str \<Longrightarrow>
   filter (\<lambda>c. \<not> isspace c) (concat (split_long_text str m)) = filter (\<lambda>c. \<not> isspace c) str"
proof -
  assume "CHR ''|'' \<notin> set str"
  then have "filter (\<lambda>c. c \<noteq> CHR ''|'' \<and> \<not> isspace c) str = filter (\<lambda>c. \<not> isspace c) str"
    by (intro filter_cong) auto
  then show ?thesis by (simp add: split_long_text_content)
qed

text \<open>
  C4. The chunks, concatenated, should hold every character of the text that is not white
  space, in the order of the text. The code loses the character \<open>|\<close>, which line 23 uses
  as its separator: \<open>split_long_text('a|b', 2)\<close> returns \<open>['ab']\<close>.
\<close>

theorem split_long_text_pipe_lost:
  "split_long_text ''a|b'' 2 = [''ab''] \<and>
   filter (\<lambda>c. \<not> isspace c) (concat (split_long_text ''a|b'' 2)) \<noteq>
   filter (\<lambda>c. \<not> isspace c) ''a|b''"
  by code_simp

section \<open>Merger: the spans partition the text\<close>






















section \<open>Merger: overlaps, case and unmatched terms\<close>























section \<open>Document builder: empty sections and missing data\<close>

lemma add_parts_appends:
  "add_parts e prs v n hl i ps = Inr prs' \<Longrightarrow>
   \<exists>new. prs' = prs @ new \<and> (\<forall>s\<in>set new. is_verse_slide s)"
proof (induction ps arbitrary: prs i)
  case Nil
  then show ?case by simp
next
  case (Cons p ps)
  then obtain r where r: "reference v = Some r" by (auto split: option.splits)
  let ?prs = "add_verse_slide e prs p r (if n > 1 then Some (i + 1) else None) hl"
  from Cons.prems r have "add_parts e ?prs v n hl (i + 1) ps = Inr prs'" by simp
  from Cons.IH [OF this] obtain new where "prs' = ?prs @ new" "\<forall>s\<in>set new. is_verse_slide s"
    by blast
  then show ?case by (auto simp add: add_verse_slide_def)
qed

lemma add_verses_appends:
  "add_verses e prs vs = Inr prs' \<Longrightarrow>
   \<exists>new. prs' = prs @ new \<and> (\<forall>s\<in>set new. is_verse_slide s)"
proof (induction vs arbitrary: prs)
  case Nil
  then show ?case by simp
next
  case (Cons v vs)
  then obtain t where t: "verse_text v = Some t" by (auto split: option.splits)
  let ?parts = "utils_split_long_text e t"
  from Cons.prems t obtain mid where
    mid: "add_parts e prs v (length ?parts) (verse_highlights v) 0 ?parts = Inr mid"
    and rest: "add_verses e mid vs = Inr prs'"
    by (auto simp add: Let_def split: sum.splits)
  from add_parts_appends [OF mid] obtain n1 where
    n1: "mid = prs @ n1" "\<forall>s\<in>set n1. is_verse_slide s" by blast
  from Cons.IH [OF rest] obtain n2 where
    n2: "prs' = mid @ n2" "\<forall>s\<in>set n2. is_verse_slide s" by blast
  from n1 n2 have "prs' = prs @ (n1 @ n2) \<and> (\<forall>s\<in>set (n1 @ n2). is_verse_slide s)" by auto
  then show ?case by blast
qed

lemma add_section_empty:
  "section_verses sd = None \<or> section_verses sd = Some [] \<Longrightarrow> add_section e ct prs sd = Inr prs"
  by (auto simp add: add_section_def truthy_def get_def)

lemma add_section_slides:
  assumes ok: "add_section e ct prs sd = Inr prs'"
  shows "\<exists>new. prs' = prs @ new \<and>
           (\<forall>name. SectionSlide name \<in> set new \<longrightarrow>
              (\<exists>v vs. section_verses sd = Some (v # vs)) \<and> \<not> truthy ct \<and>
              section_name sd = Some name)"
proof (cases "truthy (section_verses sd) \<and> length (get (section_verses sd) []) > 0")
  case False
  with ok have "prs' = prs @ []" by (auto simp add: add_section_def split: if_splits)
  then show ?thesis by fastforce
next
  case True
  then obtain v vs where vs: "section_verses sd = Some (v # vs)"
    by (cases "section_verses sd") (auto simp add: truthy_def neq_Nil_conv)
  show ?thesis
  proof (cases "truthy ct")
    case True
    with ok vs have "add_verses e prs (v # vs) = Inr prs'"
      by (simp add: add_section_def truthy_def get_def)
    from add_verses_appends [OF this] obtain new where
      "prs' = prs @ new" "\<forall>s\<in>set new. is_verse_slide s" by blast
    then show ?thesis by fastforce
  next
    case False
    with ok vs obtain name where name: "section_name sd = Some name"
      and "add_verses e (add_section_slide prs name) (v # vs) = Inr prs'"
      by (auto simp add: add_section_def truthy_def get_def split: option.splits)
    from add_verses_appends [OF this(2)] obtain new where
      new: "prs' = add_section_slide prs name @ new" "\<forall>s\<in>set new. is_verse_slide s" by blast
    then have "prs' = prs @ (SectionSlide name # new)" by (simp add: add_section_slide_def)
    moreover have "\<forall>n. SectionSlide n \<in> set (SectionSlide name # new) \<longrightarrow> n = name"
      using new(2) by fastforce
    ultimately show ?thesis using vs False name by blast
  qed
qed

lemma add_sections_append:
  "add_sections e ct prs (xs @ ys) =
     (case add_sections e ct prs xs of Inl err \<Rightarrow> Inl err | Inr prs' \<Rightarrow> add_sections e ct prs' ys)"
  by (induction xs arbitrary: prs) (auto split: sum.splits)

lemma add_sections_skip:
  "section_verses sd = None \<or> section_verses sd = Some [] \<Longrightarrow>
   add_sections e ct prs (xs @ sd # ys) = add_sections e ct prs (xs @ ys)"
  by (simp add: add_sections_append add_section_empty split: sum.splits)

text \<open>
  C9. A section whose list of verses is missing or empty adds no slide, neither a section
  slide nor a verse slide: the loop body leaves the presentation as it was, and the
  builder's pass over the sections gives the same result with the section as without it.
  When the loop body succeeds, it only appends slides, and a section slide is among them
  only for a section with at least one verse and only when no custom title is given.
\<close>

theorem empty_section_no_slides:
  "(section_verses sd = None \<or> section_verses sd = Some [] \<longrightarrow>
      add_section e custom_title prs sd = Inr prs \<and>
      add_sections e custom_title prs (before @ sd # after) =
      add_sections e custom_title prs (before @ after)) \<and>
   (add_section e custom_title prs sd = Inr prs' \<longrightarrow>
      (\<exists>new. prs' = prs @ new \<and>
         (\<forall>name. SectionSlide name \<in> set new \<longrightarrow>
            (\<exists>v vs. section_verses sd = Some (v # vs)) \<and> \<not> truthy custom_title \<and>
            section_name sd = Some name)))"
  using add_section_empty [of sd e custom_title prs]
        add_sections_skip [of sd e custom_title prs before after]
        add_section_slides [of e custom_title prs sd prs']
  by blast

lemma example_section:
  "add_section example_env None []
     \<lparr>section_name = Some ''Love'',
      section_verses = Some [\<lparr>reference = Some ''John 11:35'', verse_text = Some ''Jesus wept.'',
                              verse_highlights = None\<rparr>]\<rparr> =
   Inr [SectionSlide ''Love'',
        VerseSlide [\<lparr>span_start = 0, span_end = 11, span_text = ''Jesus wept.'',
                     is_highlighted = False\<rparr>] ''John 11:35'' None]"
  by (simp add: add_section_def truthy_def get_def add_section_slide_def add_verse_slide_def
        example_env_def split_long_text_def)

theorem empty_section_no_slides_witness:
  "section_verses \<lparr>section_name = Some ''Empty'', section_verses = Some []\<rparr> = Some [] \<and>
   add_section example_env None [TitleSlide ''T'' None]
     \<lparr>section_name = Some ''Empty'', section_verses = Some []\<rparr> = Inr [TitleSlide ''T'' None] \<and>
   add_sections example_env None [TitleSlide ''T'' None]
     ([] @ \<lparr>section_name = Some ''Empty'', section_verses = Some []\<rparr> # []) =
   add_sections example_env None [TitleSlide ''T'' None] ([] @ []) \<and>
   add_section example_env None []
     \<lparr>section_name = Some ''Love'',
      section_verses = Some [\<lparr>reference = Some ''John 11:35'', verse_text = Some ''Jesus wept.'',
                              verse_highlights = None\<rparr>]\<rparr> =
   Inr [SectionSlide ''Love'',
        VerseSlide [\<lparr>span_start = 0, span_end = 11, span_text = ''Jesus wept.'',
                     is_highlighted = False\<rparr>] ''John 11:35'' None] \<and>
   (\<exists>new. [SectionSlide ''Love'',
            VerseSlide [\<lparr>span_start = 0, span_end = 11, span_text = ''Jesus wept.'',
                         is_highlighted = False\<rparr>] ''John 11:35'' None] = [] @ new \<and>
      SectionSlide ''Love'' \<in> set new \<and> \<not> truthy (None :: string option))"
proof -
  let ?empty = "\<lparr>section_name = Some ''Empty'', section_verses = Some ([] :: verse list)\<rparr>"
  let ?love = "\<lparr>section_name = Some ''Love'',
      section_verses = Some [\<lparr>reference = Some ''John 11:35'', verse_text = Some ''Jesus wept.'',
                              verse_highlights = None\<rparr>]\<rparr>"
  let ?slides = "[SectionSlide ''Love'',
        VerseSlide [\<lparr>span_start = 0, span_end = 11, span_text = ''Jesus wept.'',
                     is_highlighted = False\<rparr>] ''John 11:35'' None]"
  have h: "section_verses ?empty = Some []" by simp
  from empty_section_no_slides [of ?empty example_env None "[TitleSlide ''T'' None]" "[]" "[]"] h
  have first: "add_section example_env None [TitleSlide ''T'' None] ?empty = Inr [TitleSlide ''T'' None] \<and>
    add_sections example_env None [TitleSlide ''T'' None] ([] @ ?empty # []) =
    add_sections example_env None [TitleSlide ''T'' None] ([] @ [])"
    by blast
  from empty_section_no_slides [of ?love example_env None "[]" "[]" "[]" ?slides] example_section
  have "\<exists>new. ?slides = [] @ new \<and>
         (\<forall>name. SectionSlide name \<in> set new \<longrightarrow>
            (\<exists>v vs. section_verses ?love = Some (v # vs)) \<and> \<not> truthy (None :: string option) \<and>
            section_name ?love = Some name)"
    by blast
  then have second: "\<exists>new. ?slides = [] @ new \<and> SectionSlide ''Love'' \<in> set new \<and>
      \<not> truthy (None :: string option)"
    by auto
  from h first example_section second show ?thesis by blast
qed

text \<open>
  C10. Called with no data, \<open>None\<close> or the empty dictionary, \<open>create_presentation\<close>
  returns \<open>None\<close> and the files are as they were: nothing is saved.
\<close>

theorem no_data_no_file:
  "falsy_data d \<Longrightarrow> create_presentation e fs d output_file custom_title = Inr (None, fs)"
  by (simp add: create_presentation_def)

theorem no_data_no_file_witness:
  "falsy_data None \<and>
   create_presentation example_env Map.empty None None None = Inr (None, Map.empty) \<and>
   falsy_data (Some \<lparr>presentation_title = None, presentation_subtitle = None,
                      sections = None, other_keys = 0\<rparr>) \<and>
   create_presentation example_env Map.empty
     (Some \<lparr>presentation_title = None, presentation_subtitle = None,
            sections = None, other_keys = 0\<rparr>) (Some ''out.pptx'') None = Inr (None, Map.empty)"
proof -
  have h1: "falsy_data None" by (simp add: falsy_data_def)
  have h2: "falsy_data (Some \<lparr>presentation_title = None, presentation_subtitle = None,
                      sections = None, other_keys = 0\<rparr>)" by (simp add: falsy_data_def)
  from h1 h2 no_data_no_file [OF h1, of example_env Map.empty None None]
    no_data_no_file [OF h2, of example_env Map.empty "Some ''out.pptx''" None]
  show ?thesis by blast
qed

end
